theory Spec2Isabelle
  imports Complex_Main "HOL-Library.Product_Lexorder"
begin

section \<open>Numbers, errors and the library functions the code calls\<close>

text \<open>
  A Python \<open>float\<close> is modelled as a \<^typ>\<open>real\<close>. Two effects of the arithmetic of doubles
  are kept: the underflow of the normal density to \<open>0.0\<close> (see \<open>math_exp\<close> below) and the
  order in which a running total is added up (see the portfolio). Every other rounding,
  and overflow, are outside the model. An exception is a value: \<open>Inl\<close> of the exception's class. The two
  classes the code can raise are \<open>ValueError\<close> (the two \<open>raise\<close> statements of
  \<open>Option.__init__\<close>, and \<open>math.log\<close> and \<open>math.sqrt\<close> outside their domain) and
  \<open>ZeroDivisionError\<close> (the operator \<open>/\<close> on Python numbers with a zero divisor).
\<close>

datatype error = ValueError | ZeroDivisionError

text \<open>\<open>math.log(x)\<close> raises \<open>ValueError\<close> unless \<open>x > 0\<close>.\<close>

definition math_log :: "real \<Rightarrow> error + real" where
  "math_log x = (if x \<le> 0 then Inl ValueError else Inr (ln x))"

text \<open>\<open>math.sqrt(x)\<close> raises \<open>ValueError\<close> when \<open>x < 0\<close>.\<close>

definition math_sqrt :: "real \<Rightarrow> error + real" where
  "math_sqrt x = (if x < 0 then Inl ValueError else Inr (sqrt x))"

text \<open>\<open>a / b\<close> on Python numbers raises \<open>ZeroDivisionError\<close> when \<open>b\<close> is zero.\<close>

definition py_truediv :: "real \<Rightarrow> real \<Rightarrow> error + real" where
  "py_truediv a b = (if b = 0 then Inl ZeroDivisionError else Inr (a / b))"

text \<open>
  \<open>math.exp(x)\<close> returns the double nearest to the exponential. When the exponential is
  below \<open>2^-1075\<close>, half the smallest positive double, that double is \<open>0.0\<close>: the result
  underflows (for \<open>x\<close> below about \<open>-745.13\<close>), and no exception is raised. The normal
  density calls \<open>math.exp\<close> on \<open>-d^2/2\<close>, which is below that bound as soon as \<open>|d|\<close>
  exceeds about 38.6, so there the underflow is modelled. The two discount factors
  \<open>math.exp(-q * T)\<close> and \<open>math.exp(-r * T)\<close> underflow only for a rate times years beyond
  745; they are the real exponential.
\<close>

definition math_exp :: "real \<Rightarrow> real" where
  "math_exp x = (if exp x < 1 / 2 ^ 1075 then 0 else exp x)"

section \<open>class Forward\<close>

text \<open>
  A forward contract holds the price of its underlying and nothing else. The attribute has
  the name of the option's attribute; the record of the option is declared second, so the
  plain name \<open>underlying_price\<close> is the option's and the forward's is
  \<open>Forward.underlying_price\<close>.
\<close>

record Forward =
  underlying_price :: real

definition Forward_init :: "real \<Rightarrow> Forward" where
  "Forward_init underlying_price' = \<lparr>underlying_price = underlying_price'\<rparr>"

section \<open>class Option\<close>

record Option =
  option_type :: string
  underlying_price :: real
  strike_price :: real
  interest_rate :: real
  dividend_yield :: real
  time_to_maturity :: int
  implied_volatility :: real

definition DAYS_IN_YEAR :: real where
  "DAYS_IN_YEAR = 365"

text \<open>\<open>Option.__init__\<close>: two guards, then the seven assignments to \<open>self\<close>.\<close>

definition Option_init ::
  "string \<Rightarrow> real \<Rightarrow> real \<Rightarrow> real \<Rightarrow> real \<Rightarrow> int \<Rightarrow> real \<Rightarrow> error + Option" where
  "Option_init option_type' underlying_price' strike_price' interest_rate' dividend_yield'
       time_to_maturity' implied_volatility' =
     (if option_type' \<notin> set [''Call'', ''Put''] then Inl ValueError
      else if underlying_price' \<le> 0 \<or> strike_price' \<le> 0 \<or> time_to_maturity' \<le> 0
              \<or> implied_volatility' \<le> 0 then Inl ValueError
      else Inr \<lparr>option_type = option_type', underlying_price = underlying_price',
                strike_price = strike_price', interest_rate = interest_rate',
                dividend_yield = dividend_yield', time_to_maturity = time_to_maturity',
                implied_volatility = implied_volatility'\<rparr>)"

text \<open>
  \<open>Option.norm_dist\<close> returns \<open>scipy.stats.norm.cdf(d)\<close>. SciPy is not part of the
  repository: its cumulative distribution function is the parameter \<open>cdf\<close> of every
  definition that calls it.
\<close>

definition norm_dist :: "(real \<Rightarrow> real) \<Rightarrow> real \<Rightarrow> real" where
  "norm_dist cdf d = cdf d"

text \<open>
  \<open>Option.normal_pdf\<close>: \<open>math.exp(-d ** 2 / 2) / math.sqrt(2 * math.pi)\<close>. The argument of
  \<open>math.sqrt\<close> is a positive constant, so neither the root nor the division can raise.
  The value is \<open>0.0\<close> when the exponential underflows.
\<close>

definition normal_pdf :: "real \<Rightarrow> real" where
  "normal_pdf d = math_exp (- (d ^ 2) / 2) / sqrt (2 * pi)"

text \<open>
  \<open>Option._calculate_d1_d2\<close>. Python evaluates the numerator of \<open>D1\<close> first (the inner
  quotient, then its logarithm), then \<open>math.sqrt(T)\<close>, then the outer quotient; the first
  operation that raises decides the exception.
\<close>

definition calculate_d1_d2 ::
  "real \<Rightarrow> real \<Rightarrow> real \<Rightarrow> real \<Rightarrow> real \<Rightarrow> real \<Rightarrow> error + (real \<times> real)" where
  "calculate_d1_d2 S K T r q sigma =
     (case py_truediv (S * exp (- q * T)) (K * exp (- r * T)) of
        Inl e \<Rightarrow> Inl e
      | Inr x \<Rightarrow>
     (case math_log x of
        Inl e \<Rightarrow> Inl e
      | Inr l \<Rightarrow>
     (case math_sqrt T of
        Inl e \<Rightarrow> Inl e
      | Inr s \<Rightarrow>
     (case py_truediv (l + 0.5 * sigma ^ 2 * T) (sigma * s) of
        Inl e \<Rightarrow> Inl e
      | Inr D1 \<Rightarrow>
     (case math_sqrt T of
        Inl e \<Rightarrow> Inl e
      | Inr s' \<Rightarrow> Inr (D1, D1 - sigma * s'))))))"


text \<open>
  The five pricing methods. Each takes the three optional overrides (\<open>None\<close> is Python's
  default \<open>None\<close>) and the object \<open>self\<close>, and returns the value or the exception together
  with the object as the call leaves it. No statement of the five bodies assigns to an
  attribute of \<open>self\<close>: the overrides are bound to the local names \<open>T\<close>, \<open>S\<close> and \<open>sigma\<close>.
\<close>

definition Option_black_scholes ::
  "(real \<Rightarrow> real) \<Rightarrow> real option \<Rightarrow> int option \<Rightarrow> real option \<Rightarrow> Option
     \<Rightarrow> (error + real) \<times> Option" where
  "Option_black_scholes cdf underlying_price' time_to_maturity' implied_volatility' self =
     (let T = (case time_to_maturity' of
                 None \<Rightarrow> real_of_int (time_to_maturity self) / DAYS_IN_YEAR
               | Some t \<Rightarrow> real_of_int t / DAYS_IN_YEAR);
          S = (case underlying_price' of None \<Rightarrow> underlying_price self | Some u \<Rightarrow> u);
          K = strike_price self;
          r = interest_rate self;
          q = dividend_yield self;
          sigma = (case implied_volatility' of
                     None \<Rightarrow> implied_volatility self | Some v \<Rightarrow> v)
      in
        ((case calculate_d1_d2 S K T r q sigma of
            Inl e \<Rightarrow> Inl e
          | Inr (D1, D2) \<Rightarrow>
              if option_type self = ''Call''
              then Inr (S * exp (- q * T) * norm_dist cdf D1
                        - K * exp (- r * T) * norm_dist cdf D2)
              else Inr (K * exp (- r * T) * norm_dist cdf (- D2)
                        - S * exp (- q * T) * norm_dist cdf (- D1))),
         self))"

definition Option_delta ::
  "(real \<Rightarrow> real) \<Rightarrow> real option \<Rightarrow> int option \<Rightarrow> real option \<Rightarrow> Option
     \<Rightarrow> (error + real) \<times> Option" where
  "Option_delta cdf underlying_price' time_to_maturity' implied_volatility' self =
     (let T = (case time_to_maturity' of
                 None \<Rightarrow> real_of_int (time_to_maturity self) / DAYS_IN_YEAR
               | Some t \<Rightarrow> real_of_int t / DAYS_IN_YEAR);
          S = (case underlying_price' of None \<Rightarrow> underlying_price self | Some u \<Rightarrow> u);
          K = strike_price self;
          r = interest_rate self;
          q = dividend_yield self;
          sigma = (case implied_volatility' of
                     None \<Rightarrow> implied_volatility self | Some v \<Rightarrow> v)
      in
        ((case calculate_d1_d2 S K T r q sigma of
            Inl e \<Rightarrow> Inl e
          | Inr (D1, D2) \<Rightarrow>
              if option_type self = ''Call''
              then Inr (exp (- q * T) * norm_dist cdf D1)
              else Inr (exp (- q * T) * (norm_dist cdf D1 - 1))),
         self))"

definition Option_vega ::
  "real option \<Rightarrow> int option \<Rightarrow> real option \<Rightarrow> Option \<Rightarrow> (error + real) \<times> Option" where
  "Option_vega underlying_price' time_to_maturity' implied_volatility' self =
     (let T = (case time_to_maturity' of
                 None \<Rightarrow> real_of_int (time_to_maturity self) / DAYS_IN_YEAR
               | Some t \<Rightarrow> real_of_int t / DAYS_IN_YEAR);
          S = (case underlying_price' of None \<Rightarrow> underlying_price self | Some u \<Rightarrow> u);
          K = strike_price self;
          r = interest_rate self;
          q = dividend_yield self;
          sigma = (case implied_volatility' of
                     None \<Rightarrow> implied_volatility self | Some v \<Rightarrow> v)
      in
        ((case calculate_d1_d2 S K T r q sigma of
            Inl e \<Rightarrow> Inl e
          | Inr (D1, D2) \<Rightarrow>
         (case math_sqrt T of
            Inl e \<Rightarrow> Inl e
          | Inr s \<Rightarrow> Inr (S * exp (- q * T) * normal_pdf D1 * s * 0.01))),
         self))"

definition Option_gamma ::
  "real option \<Rightarrow> int option \<Rightarrow> real option \<Rightarrow> Option \<Rightarrow> (error + real) \<times> Option" where
  "Option_gamma underlying_price' time_to_maturity' implied_volatility' self =
     (let T = (case time_to_maturity' of
                 None \<Rightarrow> real_of_int (time_to_maturity self) / DAYS_IN_YEAR
               | Some t \<Rightarrow> real_of_int t / DAYS_IN_YEAR);
          S = (case underlying_price' of None \<Rightarrow> underlying_price self | Some u \<Rightarrow> u);
          K = strike_price self;
          r = interest_rate self;
          q = dividend_yield self;
          sigma = (case implied_volatility' of
                     None \<Rightarrow> implied_volatility self | Some v \<Rightarrow> v)
      in
        ((case calculate_d1_d2 S K T r q sigma of
            Inl e \<Rightarrow> Inl e
          | Inr (D1, D2) \<Rightarrow>
         (case math_sqrt T of
            Inl e \<Rightarrow> Inl e
          | Inr s \<Rightarrow> py_truediv (normal_pdf D1 * exp (- q * T)) (S * sigma * s))),
         self))"

definition Option_theta ::
  "(real \<Rightarrow> real) \<Rightarrow> real option \<Rightarrow> int option \<Rightarrow> real option \<Rightarrow> Option
     \<Rightarrow> (error + real) \<times> Option" where
  "Option_theta cdf underlying_price' time_to_maturity' implied_volatility' self =
     (let T = (case time_to_maturity' of
                 None \<Rightarrow> real_of_int (time_to_maturity self) / DAYS_IN_YEAR
               | Some t \<Rightarrow> real_of_int t / DAYS_IN_YEAR);
          S = (case underlying_price' of None \<Rightarrow> underlying_price self | Some u \<Rightarrow> u);
          K = strike_price self;
          r = interest_rate self;
          q = dividend_yield self;
          sigma = (case implied_volatility' of
                     None \<Rightarrow> implied_volatility self | Some v \<Rightarrow> v)
      in
        ((case calculate_d1_d2 S K T r q sigma of
            Inl e \<Rightarrow> Inl e
          | Inr (D1, D2) \<Rightarrow>
              if option_type self = ''Call''
              then
                (case math_sqrt T of
                   Inl e \<Rightarrow> Inl e
                 | Inr s \<Rightarrow>
                (case py_truediv (- S * normal_pdf D1 * sigma * exp (- q * T)) (2 * s) of
                   Inl e \<Rightarrow> Inl e
                 | Inr decay \<Rightarrow>
                     Inr ((decay + q * S * norm_dist cdf D1 * exp (- q * T)
                           - r * K * exp (- r * T) * norm_dist cdf D2) / DAYS_IN_YEAR)))
              else
                (case math_sqrt T of
                   Inl e \<Rightarrow> Inl e
                 | Inr s \<Rightarrow>
                (case py_truediv (- S * normal_pdf D1 * sigma * exp (- q * T)) (2 * s) of
                   Inl e \<Rightarrow> Inl e
                 | Inr decay \<Rightarrow>
                     Inr ((decay - q * S * norm_dist cdf (- D1) * exp (- q * T)
                           + r * K * exp (- r * T) * norm_dist cdf (- D2)) / DAYS_IN_YEAR)))),
         self))"

section \<open>class Portfolio\<close>

text \<open>
  An entry is the dictionary that \<open>add_option\<close> or \<open>add_forward\<close> appends: three fixed
  keys, so a record. The plain names \<open>quantity\<close> and \<open>contract_size\<close> are those of an
  option entry.
\<close>

record forward_entry =
  forward :: Forward
  quantity :: real
  contract_size :: real

record option_entry =
  option :: Option
  quantity :: real
  contract_size :: real

record Portfolio =
  portfolio_value :: real
  options :: "option_entry list"
  forwards :: "forward_entry list"

definition Portfolio_init :: "real \<Rightarrow> Portfolio" where
  "Portfolio_init portfolio_value' =
     \<lparr>portfolio_value = portfolio_value', options = [], forwards = []\<rparr>"

definition add_option :: "Option \<Rightarrow> real \<Rightarrow> real \<Rightarrow> Portfolio \<Rightarrow> Portfolio" where
  "add_option option' quantity' contract_size' self =
     self\<lparr>options := options self
              @ [\<lparr>option = option', quantity = quantity', contract_size = contract_size'\<rparr>]\<rparr>"

definition add_forward :: "Forward \<Rightarrow> real \<Rightarrow> real \<Rightarrow> Portfolio \<Rightarrow> Portfolio" where
  "add_forward forward' quantity' contract_size' self =
     self\<lparr>forwards := forwards self
              @ [\<lparr>forward = forward', quantity = quantity', contract_size = contract_size'\<rparr>]\<rparr>"

text \<open>
  \<open>scipy.stats.norm.cdf\<close> returns a NumPy scalar (\<open>numpy.float64\<close>), and arithmetic
  between a NumPy scalar and a Python number gives a NumPy scalar. So the values of
  \<open>black_scholes\<close>, \<open>Option.delta\<close> and \<open>Option.theta\<close> are NumPy scalars, and those of
  \<open>Option.gamma\<close> and \<open>Option.vega\<close>, which call only \<open>math\<close>, are Python floats. The
  difference shows in one place: a NumPy scalar divided by zero does not raise, it gives
  \<open>inf\<close>, \<open>-inf\<close> or \<open>nan\<close> (with a warning). \<open>NonFinite\<close> stands for these three values;
  adding anything to one of them gives one of them again.

  The operator \<open>+\<close> of doubles rounds its result, so it is not associative, and the order
  in which a loop adds its terms shows in the total. To keep that order in the model, the
  addition of a running total is a parameter \<open>add\<close> of every aggregate: a binary
  operation on numbers about which nothing is assumed. The addition of doubles is one
  such operation, the addition of real numbers another.
\<close>

datatype np_float64 = Finite real | NonFinite

definition np_truediv :: "real \<Rightarrow> real \<Rightarrow> np_float64" where
  "np_truediv a b = (if b = 0 then NonFinite else Finite (a / b))"

fun np_add :: "(real \<Rightarrow> real \<Rightarrow> real) \<Rightarrow> np_float64 \<Rightarrow> np_float64 \<Rightarrow> np_float64" where
  "np_add add (Finite a) (Finite b) = Finite (add a b)"
| "np_add add _ _ = NonFinite"

text \<open>
  Each aggregate is a \<open>for\<close> loop over a list that adds to a running total; the loop is a
  recursion on the entries still to visit, with the total as accumulator. A pricing method
  called on an entry's option is called with no override, and only its value is used.
\<close>

fun premium_loop ::
  "(real \<Rightarrow> real \<Rightarrow> real) \<Rightarrow> (real \<Rightarrow> real) \<Rightarrow> option_entry list \<Rightarrow> real \<Rightarrow> error + real" where
  "premium_loop add cdf [] total_value = Inr total_value"
| "premium_loop add cdf (entry # rest) total_value =
     (case fst (Option_black_scholes cdf None None None (option entry)) of
        Inl e \<Rightarrow> Inl e
      | Inr p \<Rightarrow>
          premium_loop add cdf rest
            (add total_value (p * quantity entry * contract_size entry)))"

definition Portfolio_total_premium_amount ::
  "(real \<Rightarrow> real \<Rightarrow> real) \<Rightarrow> (real \<Rightarrow> real) \<Rightarrow> Portfolio \<Rightarrow> error + real" where
  "Portfolio_total_premium_amount add cdf self = premium_loop add cdf (options self) 0"

fun delta_options_loop ::
  "(real \<Rightarrow> real \<Rightarrow> real) \<Rightarrow> (real \<Rightarrow> real) \<Rightarrow> real \<Rightarrow> option_entry list \<Rightarrow> np_float64
     \<Rightarrow> error + np_float64" where
  "delta_options_loop add cdf pv [] total_delta = Inr total_delta"
| "delta_options_loop add cdf pv (entry # rest) total_delta =
     (case fst (Option_delta cdf None None None (option entry)) of
        Inl e \<Rightarrow> Inl e
      | Inr d \<Rightarrow>
          delta_options_loop add cdf pv rest
            (np_add add total_delta
               (np_truediv (d * quantity entry * contract_size entry
                              * underlying_price (option entry)) pv)))"

fun delta_forwards_loop ::
  "(real \<Rightarrow> real \<Rightarrow> real) \<Rightarrow> real \<Rightarrow> forward_entry list \<Rightarrow> np_float64
     \<Rightarrow> error + np_float64" where
  "delta_forwards_loop add pv [] total_delta = Inr total_delta"
| "delta_forwards_loop add pv (entry # rest) total_delta =
     (case py_truediv (forward_entry.quantity entry * forward_entry.contract_size entry
                         * Forward.underlying_price (forward entry)) pv of
        Inl e \<Rightarrow> Inl e
      | Inr x \<Rightarrow> delta_forwards_loop add pv rest (np_add add total_delta (Finite x)))"

definition Portfolio_delta ::
  "(real \<Rightarrow> real \<Rightarrow> real) \<Rightarrow> (real \<Rightarrow> real) \<Rightarrow> Portfolio \<Rightarrow> error + np_float64" where
  "Portfolio_delta add cdf self =
     (case delta_options_loop add cdf (portfolio_value self) (options self) (Finite 0) of
        Inl e \<Rightarrow> Inl e
      | Inr total_delta \<Rightarrow>
          delta_forwards_loop add (portfolio_value self) (forwards self) total_delta)"

fun gamma_loop ::
  "(real \<Rightarrow> real \<Rightarrow> real) \<Rightarrow> real \<Rightarrow> option_entry list \<Rightarrow> real \<Rightarrow> error + real" where
  "gamma_loop add pv [] total_gamma = Inr total_gamma"
| "gamma_loop add pv (entry # rest) total_gamma =
     (case fst (Option_gamma None None None (option entry)) of
        Inl e \<Rightarrow> Inl e
      | Inr g \<Rightarrow>
     (case py_truediv (g * quantity entry * contract_size entry
                         * underlying_price (option entry) ^ 2 / 100) pv of
        Inl e \<Rightarrow> Inl e
      | Inr x \<Rightarrow> gamma_loop add pv rest (add total_gamma x)))"

definition Portfolio_gamma :: "(real \<Rightarrow> real \<Rightarrow> real) \<Rightarrow> Portfolio \<Rightarrow> error + real" where
  "Portfolio_gamma add self = gamma_loop add (portfolio_value self) (options self) 0"

fun vega_loop ::
  "(real \<Rightarrow> real \<Rightarrow> real) \<Rightarrow> real \<Rightarrow> option_entry list \<Rightarrow> real \<Rightarrow> error + real" where
  "vega_loop add pv [] total_vega = Inr total_vega"
| "vega_loop add pv (entry # rest) total_vega =
     (case fst (Option_vega None None None (option entry)) of
        Inl e \<Rightarrow> Inl e
      | Inr v \<Rightarrow>
     (case py_truediv (v * quantity entry * contract_size entry * 10000) pv of
        Inl e \<Rightarrow> Inl e
      | Inr x \<Rightarrow> vega_loop add pv rest (add total_vega x)))"

definition Portfolio_vega :: "(real \<Rightarrow> real \<Rightarrow> real) \<Rightarrow> Portfolio \<Rightarrow> error + real" where
  "Portfolio_vega add self = vega_loop add (portfolio_value self) (options self) 0"

fun theta_loop ::
  "(real \<Rightarrow> real \<Rightarrow> real) \<Rightarrow> (real \<Rightarrow> real) \<Rightarrow> real \<Rightarrow> option_entry list \<Rightarrow> np_float64
     \<Rightarrow> error + np_float64" where
  "theta_loop add cdf pv [] total_theta = Inr total_theta"
| "theta_loop add cdf pv (entry # rest) total_theta =
     (case fst (Option_theta cdf None None None (option entry)) of
        Inl e \<Rightarrow> Inl e
      | Inr t \<Rightarrow>
          theta_loop add cdf pv rest
            (np_add add total_theta
               (np_truediv (t * quantity entry * contract_size entry * 10000) pv)))"

definition Portfolio_theta ::
  "(real \<Rightarrow> real \<Rightarrow> real) \<Rightarrow> (real \<Rightarrow> real) \<Rightarrow> Portfolio \<Rightarrow> error + np_float64" where
  "Portfolio_theta add cdf self =
     theta_loop add cdf (portfolio_value self) (options self) (Finite 0)"

section \<open>class Volatility\<close>

text \<open>
  The class works on a pandas \<open>Series\<close> of prices indexed by date. pandas is not part of
  the repository; the five operations the class calls on a series are modelled below from
  their documented behaviour with the arguments the class passes.

  A series is the list of its rows, in row order. A timestamp is a pair: the number of its
  calendar month (counted from any fixed month) and its position inside that month; pairs
  are ordered lexicographically. A price is a real number. A computed cell is a number,
  an infinity (of either sign) or \<open>NaN\<close>, the marker pandas uses for a missing value.
\<close>

type_synonym timestamp = "nat \<times> nat"

datatype cell = Num real | Infinity | NaN

text \<open>\<open>Series.sort_index()\<close>: the rows in ascending order of their timestamps.\<close>

definition sort_index :: "(timestamp \<times> 'a) list \<Rightarrow> (timestamp \<times> 'a) list" where
  "sort_index series = sort_key fst series"

record Volatility =
  historical_prices :: "(timestamp \<times> real) list"

definition Volatility_init :: "(timestamp \<times> real) list \<Rightarrow> Volatility" where
  "Volatility_init historical_prices' = \<lparr>historical_prices = sort_index historical_prices'\<rparr>"

text \<open>
  \<open>Series.pct_change()\<close>: the first row has no predecessor and gets \<open>NaN\<close>; every other
  row gets \<open>p / previous - 1\<close>, a NumPy division: by zero it gives \<open>nan\<close> for \<open>0 / 0\<close> and an
  infinity otherwise.
\<close>

definition change :: "real \<Rightarrow> real \<Rightarrow> cell" where
  "change previous p =
     (if previous = 0 then (if p = 0 then NaN else Infinity) else Num (p / previous - 1))"

fun pct_change_from :: "real \<Rightarrow> (timestamp \<times> real) list \<Rightarrow> (timestamp \<times> cell) list" where
  "pct_change_from previous [] = []"
| "pct_change_from previous ((t, p) # rest) = (t, change previous p) # pct_change_from p rest"

fun pct_change :: "(timestamp \<times> real) list \<Rightarrow> (timestamp \<times> cell) list" where
  "pct_change [] = []"
| "pct_change ((t, p) # rest) = (t, NaN) # pct_change_from p rest"

text \<open>\<open>Series.dropna()\<close>: the rows whose value is not \<open>NaN\<close>; an infinity is kept.\<close>

definition dropna :: "(timestamp \<times> cell) list \<Rightarrow> (timestamp \<times> cell) list" where
  "dropna series = filter (\<lambda>row. snd row \<noteq> NaN) series"

text \<open>
  \<open>Series.rolling(window=w).std()\<close>: the row at position \<open>i\<close> looks at the rows
  \<open>i + 1 - w, \<dots>, i\<close> (fewer at the start of the series). With no \<open>min_periods\<close> given, the
  result is \<open>NaN\<close> unless the window holds \<open>w\<close> observations; an infinity or a \<open>NaN\<close> is
  not an observation. Otherwise it is the sample standard deviation (divisor \<open>n - 1\<close>).
\<close>

fun observation :: "cell \<Rightarrow> real option" where
  "observation (Num x) = Some x"
| "observation Infinity = None"
| "observation NaN = None"

definition sample_std :: "real list \<Rightarrow> real" where
  "sample_std xs =
     (let n = real (length xs); mean = sum_list xs / n
      in sqrt (sum_list (map (\<lambda>x. (x - mean) ^ 2) xs) / (n - 1)))"

definition window_std :: "nat \<Rightarrow> cell list \<Rightarrow> cell" where
  "window_std w cells =
     (let observations = List.map_filter observation cells
      in if length observations < w then NaN else Num (sample_std observations))"

definition rolling_std :: "nat \<Rightarrow> (timestamp \<times> cell) list \<Rightarrow> (timestamp \<times> cell) list" where
  "rolling_std w series =
     map (\<lambda>i. (fst (series ! i),
                window_std w (map snd (drop (i + 1 - w) (take (i + 1) series)))))
       [0 ..< length series]"

text \<open>Multiplying a series by the number \<open>np.sqrt(252)\<close> multiplies every cell.\<close>

fun scale :: "real \<Rightarrow> cell \<Rightarrow> cell" where
  "scale c (Num x) = Num (x * c)"
| "scale c Infinity = Infinity"
| "scale c NaN = NaN"

definition mul_scalar :: "(timestamp \<times> cell) list \<Rightarrow> real \<Rightarrow> (timestamp \<times> cell) list" where
  "mul_scalar series c = map (\<lambda>row. (fst row, scale c (snd row))) series"

text \<open>
  \<open>Series.resample('M').last()\<close> on a series in ascending order: one row for every
  calendar month from the month of the first row to the month of the last row, labelled by
  the month (pandas labels it with the month's last day); its value is the last value of
  that month that is not \<open>NaN\<close>, and \<open>NaN\<close> when the month has none. An empty series gives
  an empty series.
\<close>

definition last_valid :: "cell list \<Rightarrow> cell" where
  "last_valid cells =
     (case filter (\<lambda>c. c \<noteq> NaN) cells of [] \<Rightarrow> NaN | c # cs \<Rightarrow> last (c # cs))"

definition resample_M_last :: "(timestamp \<times> cell) list \<Rightarrow> (nat \<times> cell) list" where
  "resample_M_last series =
     (if series = [] then []
      else map (\<lambda>m. (m, last_valid (map snd (filter (\<lambda>row. fst (fst row) = m) series))))
             [fst (fst (hd series)) ..< Suc (fst (fst (last series)))])"

text \<open>
  \<open>Volatility.compute_monthly_30d_volatility\<close>, with its three local variables as
  functions of the object.
\<close>

definition daily_returns :: "Volatility \<Rightarrow> (timestamp \<times> cell) list" where
  "daily_returns self = dropna (pct_change (historical_prices self))"

definition rolling_volatility :: "Volatility \<Rightarrow> (timestamp \<times> cell) list" where
  "rolling_volatility self = mul_scalar (rolling_std 30 (daily_returns self)) (sqrt 252)"

definition compute_monthly_30d_volatility :: "Volatility \<Rightarrow> (nat \<times> cell) list" where
  "compute_monthly_30d_volatility self = resample_M_last (rolling_volatility self)"


section \<open>The formulas of the specification\<close>

text \<open>
  The quantities below are written from the words of the specification, not from the code:
  the theorems compare them with what the code computes. \<open>N\<close> is the standard normal
  cumulative distribution function and \<open>n\<close> the density; the density of the specification
  is \<open>spec_n\<close>.
\<close>

datatype kind = Call | Put

definition spec_T :: "int \<Rightarrow> real" where
  "spec_T timeToMaturityDays = real_of_int timeToMaturityDays / 365"

definition spec_d1 :: "real \<Rightarrow> real \<Rightarrow> real \<Rightarrow> real \<Rightarrow> real \<Rightarrow> real \<Rightarrow> real" where
  "spec_d1 S K r q \<sigma> T =
     (ln (S * exp (- q * T) / (K * exp (- r * T))) + 0.5 * \<sigma>\<^sup>2 * T) / (\<sigma> * sqrt T)"

definition spec_d2 :: "real \<Rightarrow> real \<Rightarrow> real \<Rightarrow> real \<Rightarrow> real \<Rightarrow> real \<Rightarrow> real" where
  "spec_d2 S K r q \<sigma> T = spec_d1 S K r q \<sigma> T - \<sigma> * sqrt T"


fun spec_price ::
  "(real \<Rightarrow> real) \<Rightarrow> kind \<Rightarrow> real \<Rightarrow> real \<Rightarrow> real \<Rightarrow> real \<Rightarrow> real \<Rightarrow> real \<Rightarrow> real" where
  "spec_price N Call S K r q \<sigma> T =
     S * exp (- q * T) * N (spec_d1 S K r q \<sigma> T)
     - K * exp (- r * T) * N (spec_d2 S K r q \<sigma> T)"
| "spec_price N Put S K r q \<sigma> T =
     K * exp (- r * T) * N (- spec_d2 S K r q \<sigma> T)
     - S * exp (- q * T) * N (- spec_d1 S K r q \<sigma> T)"

fun spec_delta ::
  "(real \<Rightarrow> real) \<Rightarrow> kind \<Rightarrow> real \<Rightarrow> real \<Rightarrow> real \<Rightarrow> real \<Rightarrow> real \<Rightarrow> real \<Rightarrow> real" where
  "spec_delta N Call S K r q \<sigma> T = exp (- q * T) * N (spec_d1 S K r q \<sigma> T)"
| "spec_delta N Put S K r q \<sigma> T = exp (- q * T) * (N (spec_d1 S K r q \<sigma> T) - 1)"

definition spec_gamma ::
  "(real \<Rightarrow> real) \<Rightarrow> real \<Rightarrow> real \<Rightarrow> real \<Rightarrow> real \<Rightarrow> real \<Rightarrow> real \<Rightarrow> real" where
  "spec_gamma n S K r q \<sigma> T =
     n (spec_d1 S K r q \<sigma> T) * exp (- q * T) / (S * \<sigma> * sqrt T)"

definition spec_vega ::
  "(real \<Rightarrow> real) \<Rightarrow> real \<Rightarrow> real \<Rightarrow> real \<Rightarrow> real \<Rightarrow> real \<Rightarrow> real \<Rightarrow> real" where
  "spec_vega n S K r q \<sigma> T =
     S * exp (- q * T) * n (spec_d1 S K r q \<sigma> T) * sqrt T * 0.01"

fun spec_theta ::
  "(real \<Rightarrow> real) \<Rightarrow> (real \<Rightarrow> real) \<Rightarrow> kind \<Rightarrow> real \<Rightarrow> real \<Rightarrow> real \<Rightarrow> real \<Rightarrow> real \<Rightarrow> real
     \<Rightarrow> real" where
  "spec_theta n N Call S K r q \<sigma> T =
     (- S * n (spec_d1 S K r q \<sigma> T) * \<sigma> * exp (- q * T) / (2 * sqrt T)
      + q * S * N (spec_d1 S K r q \<sigma> T) * exp (- q * T)
      - r * K * exp (- r * T) * N (spec_d2 S K r q \<sigma> T)) / 365"
| "spec_theta n N Put S K r q \<sigma> T =
     (- S * n (spec_d1 S K r q \<sigma> T) * \<sigma> * exp (- q * T) / (2 * sqrt T)
      - q * S * N (- spec_d1 S K r q \<sigma> T) * exp (- q * T)
      + r * K * exp (- r * T) * N (- spec_d2 S K r q \<sigma> T)) / 365"


text \<open>
  An instrument is valid when it is what its constructor returns for its own fields. Its
  kind is read from \<open>option_type\<close> the way every pricing method reads it.
\<close>

definition constructed :: "Option \<Rightarrow> bool" where
  "constructed self \<longleftrightarrow>
     Option_init (option_type self) (underlying_price self) (strike_price self)
       (interest_rate self) (dividend_yield self) (time_to_maturity self)
       (implied_volatility self) = Inr self"

definition kind_of :: "Option \<Rightarrow> kind" where
  "kind_of self = (if option_type self = ''Call'' then Call else Put)"

text \<open>The parameter a pricing call works with: the override when one is given.\<close>

definition effective :: "'a \<Rightarrow> 'a option \<Rightarrow> 'a" where
  "effective stored override = (case override of None \<Rightarrow> stored | Some v \<Rightarrow> v)"

text \<open>The five pricing calls under one name, to state a property of each of them.\<close>

datatype pricing_query = Price | Delta | Gamma | Vega | Theta

fun pricing_call ::
  "(real \<Rightarrow> real) \<Rightarrow> pricing_query \<Rightarrow> real option \<Rightarrow> int option \<Rightarrow> real option \<Rightarrow> Option
     \<Rightarrow> (error + real) \<times> Option" where
  "pricing_call cdf Price = Option_black_scholes cdf"
| "pricing_call cdf Delta = Option_delta cdf"
| "pricing_call cdf Gamma = Option_gamma"
| "pricing_call cdf Vega = Option_vega"
| "pricing_call cdf Theta = Option_theta cdf"

text \<open>
  The instrument of the repository's test, and the logistic function: a function with the
  symmetry of a cumulative distribution function of a symmetric law, put in the place of
  \<open>norm.cdf\<close> where a closed example needs a concrete one.
\<close>

definition test_option :: Option where
  "test_option =
     \<lparr>option_type = ''Call'', underlying_price = 100, strike_price = 110,
      interest_rate = 0.05, dividend_yield = 0.02, time_to_maturity = 30,
      implied_volatility = 0.2\<rparr>"

definition logistic :: "real \<Rightarrow> real" where
  "logistic x = 1 / (1 + exp (- x))"


text \<open>
  What the specification's formula gives for an instrument's own parameters, and the two
  sums of the specification the theorems on the aggregator use.
\<close>

definition instrument_price :: "(real \<Rightarrow> real) \<Rightarrow> Option \<Rightarrow> real" where
  "instrument_price N self =
     spec_price N (kind_of self) (underlying_price self) (strike_price self)
       (interest_rate self) (dividend_yield self) (implied_volatility self)
       (spec_T (time_to_maturity self))"

definition instrument_delta :: "(real \<Rightarrow> real) \<Rightarrow> Option \<Rightarrow> real" where
  "instrument_delta N self =
     spec_delta N (kind_of self) (underlying_price self) (strike_price self)
       (interest_rate self) (dividend_yield self) (implied_volatility self)
       (spec_T (time_to_maturity self))"




definition spec_totalPremium :: "(real \<Rightarrow> real) \<Rightarrow> Portfolio \<Rightarrow> real" where
  "spec_totalPremium N self =
     (\<Sum>entry\<leftarrow>options self.
        instrument_price N (option entry) * quantity entry * contract_size entry)"

definition spec_totalDelta :: "(real \<Rightarrow> real) \<Rightarrow> Portfolio \<Rightarrow> real" where
  "spec_totalDelta N self =
     (\<Sum>entry\<leftarrow>options self.
        instrument_delta N (option entry) * quantity entry * contract_size entry
          * underlying_price (option entry) / portfolio_value self)
     + (\<Sum>entry\<leftarrow>forwards self.
          forward_entry.quantity entry * forward_entry.contract_size entry
            * Forward.underlying_price (forward entry) / portfolio_value self)"

text \<open>
  The same sums with their order of summation, as the specification fixes it: the terms
  of the entries in insertion order, the option entries first and the forward entries
  after them, added one by one to a total that starts from 0.
\<close>

definition premium_terms :: "(real \<Rightarrow> real) \<Rightarrow> Portfolio \<Rightarrow> real list" where
  "premium_terms N self =
     map (\<lambda>entry. instrument_price N (option entry) * quantity entry * contract_size entry)
       (options self)"

definition option_delta_terms :: "(real \<Rightarrow> real) \<Rightarrow> Portfolio \<Rightarrow> real list" where
  "option_delta_terms N self =
     map (\<lambda>entry. instrument_delta N (option entry) * quantity entry * contract_size entry
                     * underlying_price (option entry) / portfolio_value self)
       (options self)"

definition forward_delta_terms :: "Portfolio \<Rightarrow> real list" where
  "forward_delta_terms self =
     map (\<lambda>entry. forward_entry.quantity entry * forward_entry.contract_size entry
                     * Forward.underlying_price (forward entry) / portfolio_value self)
       (forwards self)"

definition running_total :: "(real \<Rightarrow> real \<Rightarrow> real) \<Rightarrow> real list \<Rightarrow> real" where
  "running_total add terms = foldl add 0 terms"

text \<open>
  The portfolio of the specification's scenario, value 1000000 with the test instrument
  (quantity 100, contract size 1) and a forward on 100 (quantity 50, contract size 1),
  with a second option entry and a second forward entry added after them: the put with
  the test's parameters, sold 30 times, and a forward on 120 sold 20 times.
\<close>

definition test_put :: Option where
  "test_put = test_option\<lparr>option_type := ''Put''\<rparr>"

definition test_portfolio :: Portfolio where
  "test_portfolio =
     add_forward (Forward_init 120) (- 20) 1
       (add_forward (Forward_init 100) 50 1
          (add_option test_put (- 30) 1
             (add_option test_option 100 1 (Portfolio_init 1000000))))"

text \<open>
  An addition that loses an addend too small against the other one, as the addition of
  doubles does (there the bound is half a unit in the last place, about \<open>2^-53\<close> of the
  larger addend), and is exact otherwise. It is not the addition of doubles, but like it
  it is not associative. It takes the place of \<open>add\<close> in closed examples: two portfolios
  of value 1 with the same three forward entries, one of quantity 1 and two of quantity
  \<open>3 / 2^55\<close>, inserted large first in one and large last in the other. (With doubles the
  first total is \<open>1.0\<close> and the second \<open>1.0000000000000002\<close>.)
\<close>

definition absorbing_add :: "real \<Rightarrow> real \<Rightarrow> real" where
  "absorbing_add a b =
     (if \<bar>b\<bar> * 2 ^ 53 < \<bar>a\<bar> then a else if \<bar>a\<bar> * 2 ^ 53 < \<bar>b\<bar> then b else a + b)"

definition large_first :: Portfolio where
  "large_first =
     add_forward (Forward_init 1) (3 / 2 ^ 55) 1
       (add_forward (Forward_init 1) (3 / 2 ^ 55) 1
          (add_forward (Forward_init 1) 1 1 (Portfolio_init 1)))"

definition large_last :: Portfolio where
  "large_last =
     add_forward (Forward_init 1) 1 1
       (add_forward (Forward_init 1) (3 / 2 ^ 55) 1
          (add_forward (Forward_init 1) (3 / 2 ^ 55) 1 (Portfolio_init 1)))"

section \<open>Properties of the option pricer\<close>

subsection \<open>Auxiliary facts\<close>

text \<open>A record passes the constructor's two guards exactly when its kind is one of the two
  names and its four guarded fields are positive.\<close>

lemma constructed_iff:
  "constructed self \<longleftrightarrow>
     (option_type self = ''Call'' \<or> option_type self = ''Put'') \<and> 0 < underlying_price self
     \<and> 0 < strike_price self \<and> 0 < time_to_maturity self \<and> 0 < implied_volatility self"
  by (auto simp: constructed_def Option_init_def)

text \<open>
  The three outcomes of \<open>_calculate_d1_d2\<close> for a positive price and strike: the two
  numbers of the specification when \<open>T\<close> is positive and \<open>sigma\<close> is not zero, the
  \<open>ValueError\<close> of \<open>math.sqrt\<close> when \<open>T\<close> is negative, and the \<open>ZeroDivisionError\<close> of the
  outer quotient when \<open>sigma * sqrt T\<close> is zero.
\<close>

lemma calculate_d1_d2_positive:
  assumes "0 < S" "0 < K" "0 < T" "sigma \<noteq> 0"
  shows "calculate_d1_d2 S K T r q sigma
           = Inr (spec_d1 S K r q sigma T, spec_d2 S K r q sigma T)"
proof -
  have pos: "0 < S * exp (- q * T) / (K * exp (- r * T))"
    using assms by simp
  have quot: "py_truediv (S * exp (- q * T)) (K * exp (- r * T))
                = Inr (S * exp (- q * T) / (K * exp (- r * T)))"
    using assms by (simp add: py_truediv_def)
  have lg: "math_log (S * exp (- q * T) / (K * exp (- r * T)))
              = Inr (ln (S * exp (- q * T) / (K * exp (- r * T))))"
    unfolding math_log_def using pos by (simp only: not_le [symmetric] if_False)
  have rt: "math_sqrt T = Inr (sqrt T)"
    using assms by (simp add: math_sqrt_def)
  have nz: "sigma * sqrt T \<noteq> 0"
    using assms by simp
  have outer: "py_truediv (ln (S * exp (- q * T) / (K * exp (- r * T))) + 0.5 * sigma ^ 2 * T)
                  (sigma * sqrt T) = Inr (spec_d1 S K r q sigma T)"
    using nz by (simp only: py_truediv_def spec_d1_def if_False)
  show ?thesis
    by (simp only: calculate_d1_d2_def quot lg rt outer sum.case spec_d2_def)
qed

lemma calculate_d1_d2_negative_time:
  assumes "0 < S" "0 < K" "T < 0"
  shows "calculate_d1_d2 S K T r q sigma = Inl ValueError"
proof -
  have pos: "0 < S * exp (- q * T) / (K * exp (- r * T))"
    using assms by simp
  have quot: "py_truediv (S * exp (- q * T)) (K * exp (- r * T))
                = Inr (S * exp (- q * T) / (K * exp (- r * T)))"
    using assms by (simp add: py_truediv_def)
  have lg: "math_log (S * exp (- q * T) / (K * exp (- r * T)))
              = Inr (ln (S * exp (- q * T) / (K * exp (- r * T))))"
    unfolding math_log_def using pos by (simp only: not_le [symmetric] if_False)
  have rt: "math_sqrt T = Inl ValueError"
    using assms by (simp add: math_sqrt_def)
  show ?thesis
    by (simp only: calculate_d1_d2_def quot lg rt sum.case)
qed

lemma calculate_d1_d2_zero_divisor:
  assumes "0 < S" "0 < K" "0 \<le> T" "sigma * sqrt T = 0"
  shows "calculate_d1_d2 S K T r q sigma = Inl ZeroDivisionError"
proof -
  have pos: "0 < S * exp (- q * T) / (K * exp (- r * T))"
    using assms by simp
  have quot: "py_truediv (S * exp (- q * T)) (K * exp (- r * T))
                = Inr (S * exp (- q * T) / (K * exp (- r * T)))"
    using assms by (simp add: py_truediv_def)
  have lg: "math_log (S * exp (- q * T) / (K * exp (- r * T)))
              = Inr (ln (S * exp (- q * T) / (K * exp (- r * T))))"
    unfolding math_log_def using pos by (simp only: not_le [symmetric] if_False)
  have rt: "math_sqrt T = Inr (sqrt T)"
    using assms by (simp add: math_sqrt_def)
  have outer: "py_truediv (ln (S * exp (- q * T) / (K * exp (- r * T))) + 0.5 * sigma ^ 2 * T)
                  (sigma * sqrt T) = Inl ZeroDivisionError"
    using assms(4) by (simp only: py_truediv_def refl if_True)
  show ?thesis
    by (simp only: calculate_d1_d2_def quot lg rt outer sum.case)
qed

text \<open>A pricing call hands the object back as it received it, and an exception of
  \<open>_calculate_d1_d2\<close> is the outcome of the call.\<close>

lemma pricing_call_frame: "snd (pricing_call cdf m up ttm iv self) = self"
  by (cases m)
     (simp_all add: Option_black_scholes_def Option_delta_def Option_gamma_def Option_vega_def
        Option_theta_def Let_def)

lemma pricing_call_error:
  assumes "calculate_d1_d2 (effective (underlying_price self) up) (strike_price self)
              (spec_T (effective (time_to_maturity self) ttm)) (interest_rate self)
              (dividend_yield self) (effective (implied_volatility self) iv) = Inl e"
  shows "fst (pricing_call cdf m up ttm iv self) = Inl e"
  using assms
  by (cases m; cases up; cases ttm; cases iv)
     (simp_all add: Option_black_scholes_def Option_delta_def Option_gamma_def Option_vega_def
        Option_theta_def Let_def effective_def spec_T_def DAYS_IN_YEAR_def)


text \<open>With a positive price, strike and number of days and a volatility other than zero,
  each pricing method returns the number its formula in the specification gives for the
  parameters in effect, the density being the one the code computes.\<close>

lemma spec_T_positive: "0 < d \<Longrightarrow> 0 < spec_T d"
  by (simp add: spec_T_def)

lemma math_sqrt_positive: "0 < T \<Longrightarrow> math_sqrt T = Inr (sqrt T)"
  by (simp add: math_sqrt_def)

lemma Option_black_scholes_value:
  assumes "0 < effective (underlying_price self) up" "0 < strike_price self"
    and "0 < effective (time_to_maturity self) ttm" "effective (implied_volatility self) iv \<noteq> 0"
  shows "fst (Option_black_scholes cdf up ttm iv self) =
           Inr (spec_price cdf (kind_of self) (effective (underlying_price self) up)
                  (strike_price self) (interest_rate self) (dividend_yield self)
                  (effective (implied_volatility self) iv)
                  (spec_T (effective (time_to_maturity self) ttm)))"
  using calculate_d1_d2_positive [OF assms(1,2) spec_T_positive [OF assms(3)] assms(4),
      of "interest_rate self" "dividend_yield self"]
  by (cases up; cases ttm; cases iv)
     (simp_all add: Option_black_scholes_def Let_def effective_def spec_T_def DAYS_IN_YEAR_def
        norm_dist_def kind_of_def)

lemma Option_delta_value:
  assumes "0 < effective (underlying_price self) up" "0 < strike_price self"
    and "0 < effective (time_to_maturity self) ttm" "effective (implied_volatility self) iv \<noteq> 0"
  shows "fst (Option_delta cdf up ttm iv self) =
           Inr (spec_delta cdf (kind_of self) (effective (underlying_price self) up)
                  (strike_price self) (interest_rate self) (dividend_yield self)
                  (effective (implied_volatility self) iv)
                  (spec_T (effective (time_to_maturity self) ttm)))"
  using calculate_d1_d2_positive [OF assms(1,2) spec_T_positive [OF assms(3)] assms(4),
      of "interest_rate self" "dividend_yield self"]
  by (cases up; cases ttm; cases iv)
     (simp_all add: Option_delta_def Let_def effective_def spec_T_def DAYS_IN_YEAR_def
        norm_dist_def kind_of_def)

lemma Option_vega_value:
  assumes "0 < effective (underlying_price self) up" "0 < strike_price self"
    and "0 < effective (time_to_maturity self) ttm" "effective (implied_volatility self) iv \<noteq> 0"
  shows "fst (Option_vega up ttm iv self) =
           Inr (spec_vega normal_pdf (effective (underlying_price self) up)
                  (strike_price self) (interest_rate self) (dividend_yield self)
                  (effective (implied_volatility self) iv)
                  (spec_T (effective (time_to_maturity self) ttm)))"
  using calculate_d1_d2_positive [OF assms(1,2) spec_T_positive [OF assms(3)] assms(4),
      of "interest_rate self" "dividend_yield self"]
    math_sqrt_positive [OF spec_T_positive [OF assms(3)]]
  by (cases up; cases ttm; cases iv)
     (simp_all add: Option_vega_def Let_def effective_def spec_T_def DAYS_IN_YEAR_def
        spec_vega_def)

lemma Option_gamma_value:
  assumes "0 < effective (underlying_price self) up" "0 < strike_price self"
    and "0 < effective (time_to_maturity self) ttm" "effective (implied_volatility self) iv \<noteq> 0"
  shows "fst (Option_gamma up ttm iv self) =
           Inr (spec_gamma normal_pdf (effective (underlying_price self) up)
                  (strike_price self) (interest_rate self) (dividend_yield self)
                  (effective (implied_volatility self) iv)
                  (spec_T (effective (time_to_maturity self) ttm)))"
  using calculate_d1_d2_positive [OF assms(1,2) spec_T_positive [OF assms(3)] assms(4),
      of "interest_rate self" "dividend_yield self"]
    math_sqrt_positive [OF spec_T_positive [OF assms(3)]] assms
  by (cases up; cases ttm; cases iv)
     (simp_all add: Option_gamma_def Let_def effective_def spec_T_def DAYS_IN_YEAR_def
        spec_gamma_def py_truediv_def)

lemma Option_theta_value:
  assumes "0 < effective (underlying_price self) up" "0 < strike_price self"
    and "0 < effective (time_to_maturity self) ttm" "effective (implied_volatility self) iv \<noteq> 0"
  shows "fst (Option_theta cdf up ttm iv self) =
           Inr (spec_theta normal_pdf cdf (kind_of self) (effective (underlying_price self) up)
                  (strike_price self) (interest_rate self) (dividend_yield self)
                  (effective (implied_volatility self) iv)
                  (spec_T (effective (time_to_maturity self) ttm)))"
  using calculate_d1_d2_positive [OF assms(1,2) spec_T_positive [OF assms(3)] assms(4),
      of "interest_rate self" "dividend_yield self"]
    math_sqrt_positive [OF spec_T_positive [OF assms(3)]] assms
  by (cases up; cases ttm; cases iv)
     (simp_all add: Option_theta_def Let_def effective_def spec_T_def DAYS_IN_YEAR_def
        py_truediv_def norm_dist_def kind_of_def)


text \<open>The test instrument is valid, and the logistic function is symmetric.\<close>

lemma effective_simps: "effective x None = x" "effective x (Some v) = v"
  by (simp_all add: effective_def)

lemma test_option_fields:
  "option_type test_option = ''Call''" "underlying_price test_option = 100"
  "strike_price test_option = 110" "interest_rate test_option = 0.05"
  "dividend_yield test_option = 0.02" "time_to_maturity test_option = 30"
  "implied_volatility test_option = 0.2"
  by (simp_all add: test_option_def)

lemma constructed_test_option: "constructed test_option"
  by (simp add: constructed_iff test_option_fields)

lemma logistic_symmetric: "logistic x + logistic (- x) = 1"
proof -
  define e where "e = exp x"
  have pos: "0 < e"
    by (simp add: e_def)
  have inv: "exp (- x) = 1 / e"
    by (simp add: e_def exp_minus inverse_eq_divide)
  have "1 / (1 + 1 / e) + 1 / (1 + e) = 1"
    using pos by (simp add: field_simps)
  then show ?thesis
    by (simp add: logistic_def inv e_def [symmetric])
qed

subsection \<open>Construction\<close>

text \<open>
  Claim C7. Constructing an option instrument fails exactly when the kind is neither
  \<open>Call\<close> nor \<open>Put\<close> or one of underlying price, strike price, time to maturity in days and
  implied volatility is not positive; the failure is the constructor's \<open>ValueError\<close>, which
  the specification calls \<open>InvalidInstrumentError\<close>. In every other case construction
  succeeds and the instrument stores the seven parameters as given.
\<close>

theorem Option_init_fails_iff:
  "(Option_init kind' S K r q days \<sigma> = Inl ValueError \<longleftrightarrow>
      (kind' \<noteq> ''Call'' \<and> kind' \<noteq> ''Put'') \<or> S \<le> 0 \<or> K \<le> 0 \<or> days \<le> 0 \<or> \<sigma> \<le> 0)
   \<and> (Option_init kind' S K r q days \<sigma> \<noteq> Inl ValueError \<longrightarrow>
        Option_init kind' S K r q days \<sigma> =
          Inr \<lparr>option_type = kind', underlying_price = S, strike_price = K, interest_rate = r,
               dividend_yield = q, time_to_maturity = days, implied_volatility = \<sigma>\<rparr>)"
  by (auto simp: Option_init_def)

text \<open>The constructor on the test's parameters, on an unknown kind and on zero days.\<close>

theorem Option_init_fails_iff_witness:
  "Option_init ''Call'' 100 110 0.05 0.02 30 0.2 = Inr test_option
   \<and> Option_init ''Straddle'' 100 110 0.05 0.02 30 0.2 = Inl ValueError
   \<and> Option_init ''Put'' 100 110 0.05 0.02 0 0.2 = Inl ValueError"
  using Option_init_fails_iff [of "''Call''" 100 110 "0.05" "0.02" 30 "0.2"]
    Option_init_fails_iff [of "''Straddle''" 100 110 "0.05" "0.02" 30 "0.2"]
    Option_init_fails_iff [of "''Put''" 100 110 "0.05" "0.02" 0 "0.2"]
  by (simp add: test_option_def)

subsection \<open>Price\<close>

text \<open>
  Claim C1. For an instrument with positive underlying price, strike, days to maturity
  and volatility, \<open>black_scholes()\<close> returns \<open>S e^(-qT) N(d1) - K e^(-rT) N(d2)\<close> for a
  call and \<open>K e^(-rT) N(-d2) - S e^(-qT) N(-d1)\<close> for a put, with \<open>T\<close> the days over 365
  and \<open>d1\<close>, \<open>d2\<close> as the specification defines them. \<open>N\<close> is whatever function
  \<open>norm.cdf\<close> computes.
\<close>

theorem price_formula:
  assumes "0 < underlying_price self" "0 < strike_price self"
    and "0 < time_to_maturity self" "0 < implied_volatility self"
  shows "(option_type self = ''Call'' \<longrightarrow>
            fst (Option_black_scholes N None None None self) =
              Inr (spec_price N Call (underlying_price self) (strike_price self)
                     (interest_rate self) (dividend_yield self) (implied_volatility self)
                     (spec_T (time_to_maturity self))))
       \<and> (option_type self = ''Put'' \<longrightarrow>
            fst (Option_black_scholes N None None None self) =
              Inr (spec_price N Put (underlying_price self) (strike_price self)
                     (interest_rate self) (dividend_yield self) (implied_volatility self)
                     (spec_T (time_to_maturity self))))"
  using Option_black_scholes_value [of self None None None N] assms
  by (simp add: effective_simps kind_of_def)

text \<open>The test instrument and the put with the same parameters.\<close>

theorem price_formula_witness:
  "fst (Option_black_scholes logistic None None None test_option) =
     Inr (spec_price logistic Call 100 110 0.05 0.02 0.2 (spec_T 30))
   \<and> fst (Option_black_scholes logistic None None None (test_option\<lparr>option_type := ''Put''\<rparr>)) =
     Inr (spec_price logistic Put 100 110 0.05 0.02 0.2 (spec_T 30))"
  using price_formula [of test_option logistic]
    price_formula [of "test_option\<lparr>option_type := ''Put''\<rparr>" logistic]
  by (simp add: test_option_def)

text \<open>
  Claim C2. Put-call parity: for positive \<open>S\<close>, \<open>K\<close>, days and \<open>\<sigma>\<close> and any rates \<open>r\<close> and
  \<open>q\<close>, the call and the put built from these parameters are both priced, and the price of
  the call minus the price of the put is \<open>S e^(-qT) - K e^(-rT)\<close>. The one property of the
  normal distribution function the identity rests on is its symmetry,
  \<open>N(x) + N(-x) = 1\<close>. The equality is one of real numbers.
\<close>

theorem put_call_parity:
  assumes "0 < S" "0 < K" "0 < days" "0 < \<sigma>"
    and symmetric: "\<forall>x. N x + N (- x) = 1"
  shows "\<exists>call put c p.
           Option_init ''Call'' S K r q days \<sigma> = Inr call
         \<and> Option_init ''Put'' S K r q days \<sigma> = Inr put
         \<and> fst (Option_black_scholes N None None None call) = Inr c
         \<and> fst (Option_black_scholes N None None None put) = Inr p
         \<and> c - p = S * exp (- q * spec_T days) - K * exp (- r * spec_T days)"
proof -
  define call where "call =
    \<lparr>option_type = ''Call'', underlying_price = S, strike_price = K, interest_rate = r,
     dividend_yield = q, time_to_maturity = days, implied_volatility = \<sigma>\<rparr>"
  define put where "put = call\<lparr>option_type := ''Put''\<rparr>"
  define d1 where "d1 = spec_d1 S K r q \<sigma> (spec_T days)"
  define d2 where "d2 = spec_d2 S K r q \<sigma> (spec_T days)"
  have ic: "Option_init ''Call'' S K r q days \<sigma> = Inr call"
    using assms by (simp add: Option_init_def call_def)
  have ip: "Option_init ''Put'' S K r q days \<sigma> = Inr put"
    using assms by (simp add: Option_init_def call_def put_def)
  have c: "fst (Option_black_scholes N None None None call) =
             Inr (spec_price N Call S K r q \<sigma> (spec_T days))"
    using Option_black_scholes_value [of call None None None N] assms
    by (simp add: effective_simps kind_of_def call_def)
  have p: "fst (Option_black_scholes N None None None put) =
             Inr (spec_price N Put S K r q \<sigma> (spec_T days))"
    using Option_black_scholes_value [of put None None None N] assms
    by (simp add: effective_simps kind_of_def call_def put_def)
  have n1: "N (- d1) = 1 - N d1" and n2: "N (- d2) = 1 - N d2"
    using symmetric by (simp_all add: algebra_simps)
  have "spec_price N Call S K r q \<sigma> (spec_T days) - spec_price N Put S K r q \<sigma> (spec_T days)
          = S * exp (- q * spec_T days) - K * exp (- r * spec_T days)"
    by (simp add: d1_def [symmetric] d2_def [symmetric] n1 n2 algebra_simps)
  with ic ip c p show ?thesis
    by blast
qed

text \<open>Parity at the test's parameters, with the logistic function for \<open>N\<close>.\<close>

theorem put_call_parity_witness:
  "\<exists>call put c p.
           Option_init ''Call'' 100 110 0.05 0.02 30 0.2 = Inr call
         \<and> Option_init ''Put'' 100 110 0.05 0.02 30 0.2 = Inr put
         \<and> fst (Option_black_scholes logistic None None None call) = Inr c
         \<and> fst (Option_black_scholes logistic None None None put) = Inr p
         \<and> c - p = 100 * exp (- 0.02 * spec_T 30) - 110 * exp (- 0.05 * spec_T 30)"
  using put_call_parity [of 100 110 30 "0.2" logistic "0.05" "0.02"] logistic_symmetric
  by simp

subsection \<open>Gamma and vega\<close>













subsection \<open>Overrides\<close>

text \<open>
  Claim C8. After any of the five pricing calls, with any combination of overrides and
  whether the call returns or raises, each of the seven stored fields of the instrument
  has the value it had before the call.
\<close>

theorem pricing_call_keeps_fields:
  "option_type (snd (pricing_call cdf m up ttm iv self)) = option_type self
   \<and> underlying_price (snd (pricing_call cdf m up ttm iv self)) = underlying_price self
   \<and> strike_price (snd (pricing_call cdf m up ttm iv self)) = strike_price self
   \<and> interest_rate (snd (pricing_call cdf m up ttm iv self)) = interest_rate self
   \<and> dividend_yield (snd (pricing_call cdf m up ttm iv self)) = dividend_yield self
   \<and> time_to_maturity (snd (pricing_call cdf m up ttm iv self)) = time_to_maturity self
   \<and> implied_volatility (snd (pricing_call cdf m up ttm iv self)) = implied_volatility self"
  by (simp add: pricing_call_frame)

text \<open>A pricing call returns a number once the price in effect, the strike and the number of
  days in effect are positive and the volatility in effect is not zero.\<close>

lemma pricing_call_value:
  assumes "0 < effective (underlying_price self) up" "0 < strike_price self"
    and "0 < effective (time_to_maturity self) ttm" "effective (implied_volatility self) iv \<noteq> 0"
  shows "\<not> isl (fst (pricing_call cdf m up ttm iv self))"
  using Option_black_scholes_value [OF assms, of cdf] Option_delta_value [OF assms, of cdf]
    Option_gamma_value [OF assms] Option_vega_value [OF assms]
    Option_theta_value [OF assms, of cdf]
  by (cases m) simp_all

text \<open>
  Claim C5, as stated, does not hold: the code has no check of the parameters in effect.
  With the implied volatility overridden by \<open>-0.2\<close> the price of the test instrument is
  computed and returned.
\<close>

theorem override_zero_or_negative_counterexample:
  "\<not> isl (fst (Option_black_scholes logistic None None (Some (- 0.2)) test_option))"
  using pricing_call_value [of test_option None None "Some (- 0.2)" logistic Price]
  by (simp add: effective_simps test_option_fields)

text \<open>
  Claim C5, amended. For a valid instrument and a positive price in effect, each of the
  five pricing calls behaves as follows. If the days in effect are negative the call fails
  with the \<open>ValueError\<close> of \<open>math.sqrt\<close>; if they are zero it fails with the
  \<open>ZeroDivisionError\<close> of the division by \<open>sigma * sqrt(T)\<close>; if they are positive and the
  volatility in effect is zero it fails with the same \<open>ZeroDivisionError\<close>; if they are
  positive and the volatility in effect is negative the call does not fail and returns a
  number. In every case the stored instrument is unchanged and still valid.
\<close>

theorem override_outcomes:
  assumes "constructed self" and "0 < effective (underlying_price self) up"
  shows "(effective (time_to_maturity self) ttm < 0 \<longrightarrow>
            fst (pricing_call cdf m up ttm iv self) = Inl ValueError)
       \<and> (effective (time_to_maturity self) ttm = 0 \<longrightarrow>
            fst (pricing_call cdf m up ttm iv self) = Inl ZeroDivisionError)
       \<and> (0 < effective (time_to_maturity self) ttm \<and> effective (implied_volatility self) iv = 0 \<longrightarrow>
            fst (pricing_call cdf m up ttm iv self) = Inl ZeroDivisionError)
       \<and> (0 < effective (time_to_maturity self) ttm \<and> effective (implied_volatility self) iv < 0 \<longrightarrow>
            \<not> isl (fst (pricing_call cdf m up ttm iv self)))
       \<and> snd (pricing_call cdf m up ttm iv self) = self
       \<and> constructed (snd (pricing_call cdf m up ttm iv self))"
proof -
  have K: "0 < strike_price self"
    using assms(1) by (simp add: constructed_iff)
  have neg: "fst (pricing_call cdf m up ttm iv self) = Inl ValueError"
    if "effective (time_to_maturity self) ttm < 0"
  proof -
    have "spec_T (effective (time_to_maturity self) ttm) < 0"
      using that by (simp add: spec_T_def)
    then show ?thesis
      by (intro pricing_call_error calculate_d1_d2_negative_time assms(2) K)
  qed
  have zero: "fst (pricing_call cdf m up ttm iv self) = Inl ZeroDivisionError"
    if "effective (time_to_maturity self) ttm = 0"
  proof -
    have "spec_T (effective (time_to_maturity self) ttm) = 0"
      using that by (simp add: spec_T_def)
    then show ?thesis
      by (intro pricing_call_error calculate_d1_d2_zero_divisor assms(2) K) simp_all
  qed
  have vol0: "fst (pricing_call cdf m up ttm iv self) = Inl ZeroDivisionError"
    if "0 < effective (time_to_maturity self) ttm" "effective (implied_volatility self) iv = 0"
  proof -
    have "0 < spec_T (effective (time_to_maturity self) ttm)"
      using that(1) by (rule spec_T_positive)
    then show ?thesis
      using that(2)
      by (intro pricing_call_error calculate_d1_d2_zero_divisor assms(2) K) simp_all
  qed
  have volneg: "\<not> isl (fst (pricing_call cdf m up ttm iv self))"
    if "0 < effective (time_to_maturity self) ttm" "effective (implied_volatility self) iv < 0"
    using that by (intro pricing_call_value assms(2) K) simp_all
  from neg zero vol0 volneg assms(1) show ?thesis
    by (simp add: pricing_call_frame)
qed

text \<open>One call of the test instrument for each case.\<close>

theorem override_outcomes_witness:
  "fst (pricing_call logistic Price None (Some (- 1)) None test_option) = Inl ValueError
   \<and> fst (pricing_call logistic Gamma None (Some 0) None test_option) = Inl ZeroDivisionError
   \<and> fst (pricing_call logistic Vega None None (Some 0) test_option) = Inl ZeroDivisionError
   \<and> \<not> isl (fst (pricing_call logistic Theta None None (Some (- 0.2)) test_option))
   \<and> snd (pricing_call logistic Delta None (Some 0) (Some 0) test_option) = test_option
   \<and> constructed (snd (pricing_call logistic Delta None (Some 0) (Some 0) test_option))"
  using override_outcomes [OF constructed_test_option, of None "Some (- 1)" logistic Price None]
    override_outcomes [OF constructed_test_option, of None "Some 0" logistic Gamma None]
    override_outcomes [OF constructed_test_option, of None None logistic Vega "Some 0"]
    override_outcomes [OF constructed_test_option, of None None logistic Theta "Some (- 0.2)"]
    override_outcomes [OF constructed_test_option, of None "Some 0" logistic Delta "Some 0"]
  by (simp add: effective_simps test_option_fields constructed_test_option)

section \<open>Properties of the portfolio aggregator\<close>

text \<open>A valid instrument is priced by the formulas of the specification, and every pricing
  call on it returns.\<close>

lemma constructed_price:
  "constructed self \<Longrightarrow>
     fst (Option_black_scholes cdf None None None self) = Inr (instrument_price cdf self)"
  using Option_black_scholes_value [of self None None None cdf]
  by (simp add: constructed_iff effective_simps instrument_price_def)

lemma constructed_delta:
  "constructed self \<Longrightarrow>
     fst (Option_delta cdf None None None self) = Inr (instrument_delta cdf self)"
  using Option_delta_value [of self None None None cdf]
  by (simp add: constructed_iff effective_simps instrument_delta_def)

lemma constructed_returns:
  "constructed self \<Longrightarrow> \<exists>x. fst (pricing_call cdf m None None None self) = Inr x"
  using pricing_call_value [of self None None None cdf m]
  by (cases "fst (pricing_call cdf m None None None self)")
     (simp_all add: constructed_iff effective_simps)

text \<open>
  The loops as running totals. With a portfolio value other than zero and valid
  instruments, a loop that starts from a total ends with what is obtained by adding its
  terms to that total one by one, in the order of the list. For the addition of real
  numbers a running total is the sum.
\<close>

lemma np_add_NonFinite: "np_add add acc NonFinite = NonFinite"
  by (cases acc) simp_all

lemma foldl_plus: "foldl (+) acc terms = acc + sum_list terms" for acc :: real
  by (induction terms arbitrary: acc) simp_all

lemma running_total_plus: "running_total (+) terms = sum_list terms"
  by (simp add: running_total_def foldl_plus)

lemma premium_loop_fold:
  "\<forall>entry\<in>set entries. constructed (option entry) \<Longrightarrow>
     premium_loop add cdf entries acc =
       Inr (foldl add acc
              (map (\<lambda>entry. instrument_price cdf (option entry) * quantity entry
                              * contract_size entry) entries))"
  by (induction entries arbitrary: acc) (simp_all add: constructed_price)

lemma delta_options_loop_fold:
  "pv \<noteq> 0 \<Longrightarrow> \<forall>entry\<in>set entries. constructed (option entry) \<Longrightarrow>
     delta_options_loop add cdf pv entries (Finite acc) =
       Inr (Finite (foldl add acc
              (map (\<lambda>entry. instrument_delta cdf (option entry) * quantity entry
                              * contract_size entry * underlying_price (option entry) / pv)
                 entries)))"
  by (induction entries arbitrary: acc) (simp_all add: constructed_delta np_truediv_def)

lemma delta_forwards_loop_fold:
  "pv \<noteq> 0 \<Longrightarrow>
     delta_forwards_loop add pv entries (Finite acc) =
       Inr (Finite (foldl add acc
              (map (\<lambda>entry. forward_entry.quantity entry * forward_entry.contract_size entry
                              * Forward.underlying_price (forward entry) / pv) entries)))"
  by (induction entries arbitrary: acc) (simp_all add: py_truediv_def)

text \<open>
  Claim C3. For a portfolio whose value is not zero and whose option entries hold valid
  instruments, \<open>delta()\<close> returns the total obtained from 0 by adding, one by one, first
  the terms of the option entries in insertion order, each delta times quantity times
  contract size times underlying price over portfolio value, and then the terms of the
  forward entries in insertion order, each quantity times contract size times underlying
  price over portfolio value. This holds whatever the addition is, in particular for one
  that is not associative, so the statement fixes the order of summation. For the addition
  of real numbers the total is the sum over the option entries plus the sum over the
  forward entries. The instrument's delta is the value of \<open>Option.delta()\<close>, which for a
  valid instrument is the specification's formula.
\<close>

theorem totalDelta_sum:
  assumes "portfolio_value self \<noteq> 0"
    and "\<forall>entry\<in>set (options self). constructed (option entry)"
  shows "Portfolio_delta add cdf self =
           Inr (Finite (running_total add
                          (option_delta_terms cdf self @ forward_delta_terms self)))
       \<and> Portfolio_delta (+) cdf self = Inr (Finite (spec_totalDelta cdf self))"
proof -
  have "Portfolio_delta add' cdf self =
          Inr (Finite (running_total add'
                         (option_delta_terms cdf self @ forward_delta_terms self)))" for add'
    using assms
    by (simp add: Portfolio_delta_def delta_options_loop_fold delta_forwards_loop_fold
        running_total_def option_delta_terms_def forward_delta_terms_def)
  moreover have "running_total (+) (option_delta_terms cdf self @ forward_delta_terms self)
                   = spec_totalDelta cdf self"
    by (simp add: running_total_plus spec_totalDelta_def option_delta_terms_def
        forward_delta_terms_def)
  ultimately show ?thesis
    by simp
qed

text \<open>
  The test portfolio, with its two option entries and its two forward entries in the
  order of their insertion; and the two portfolios with the same three forward entries
  in two orders of insertion, whose totals under the absorbing addition differ.
\<close>

lemma test_portfolio_entries:
  "portfolio_value test_portfolio = 1000000"
  "options test_portfolio =
     [\<lparr>option = test_option, quantity = 100, contract_size = 1\<rparr>,
      \<lparr>option = test_put, quantity = - 30, contract_size = 1\<rparr>]"
  "forwards test_portfolio =
     [\<lparr>forward = Forward_init 100, quantity = 50, contract_size = 1\<rparr>,
      \<lparr>forward = Forward_init 120, quantity = - 20, contract_size = 1\<rparr>]"
  by (simp_all add: test_portfolio_def add_forward_def add_option_def Portfolio_init_def)

lemma constructed_test_put: "constructed test_put"
  by (simp add: constructed_iff test_put_def test_option_fields)

lemma test_put_price: "underlying_price test_put = 100"
  by (simp add: test_put_def test_option_fields)

theorem totalDelta_sum_witness:
  "Portfolio_delta absorbing_add logistic test_portfolio =
     Inr (Finite
       (absorbing_add
          (absorbing_add
             (absorbing_add
                (absorbing_add 0 (instrument_delta logistic test_option * 100 * 1 * 100 / 1000000))
                (instrument_delta logistic test_put * (- 30) * 1 * 100 / 1000000))
             (50 * 1 * 100 / 1000000))
          ((- 20) * 1 * 120 / 1000000)))
   \<and> Portfolio_delta absorbing_add logistic large_first = Inr (Finite 1)
   \<and> Portfolio_delta absorbing_add logistic large_last = Inr (Finite (1 + 3 / 2 ^ 54))"
proof -
  have "Portfolio_delta absorbing_add logistic test_portfolio =
     Inr (Finite
       (absorbing_add
          (absorbing_add
             (absorbing_add
                (absorbing_add 0 (instrument_delta logistic test_option * 100 * 1 * 100 / 1000000))
                (instrument_delta logistic test_put * (- 30) * 1 * 100 / 1000000))
             (50 * 1 * 100 / 1000000))
          ((- 20) * 1 * 120 / 1000000)))"
    using totalDelta_sum [of test_portfolio absorbing_add logistic]
    by (simp add: test_portfolio_entries constructed_test_option constructed_test_put
        running_total_def option_delta_terms_def forward_delta_terms_def test_option_fields
        test_put_price Forward_init_def)
  moreover have "Portfolio_delta absorbing_add logistic large_first = Inr (Finite 1)"
    using totalDelta_sum [of large_first absorbing_add logistic]
    by (simp add: large_first_def add_forward_def Portfolio_init_def Forward_init_def
        running_total_def option_delta_terms_def forward_delta_terms_def absorbing_add_def)
  moreover have "Portfolio_delta absorbing_add logistic large_last
                   = Inr (Finite (1 + 3 / 2 ^ 54))"
    using totalDelta_sum [of large_last absorbing_add logistic]
    by (simp add: large_last_def add_forward_def Portfolio_init_def Forward_init_def
        running_total_def option_delta_terms_def forward_delta_terms_def absorbing_add_def)
  ultimately show ?thesis
    by simp
qed

text \<open>
  The loops with a portfolio value of zero and valid instruments. A term of the delta and
  theta loops is a NumPy quotient: it is not finite, and neither is the total from then
  on. A term of the gamma and vega loops and of the loop over the forwards is a Python
  quotient: the first one raises.
\<close>

lemma delta_options_loop_NonFinite:
  "\<forall>entry\<in>set entries. constructed (option entry) \<Longrightarrow>
     delta_options_loop add cdf 0 entries NonFinite = Inr NonFinite"
  by (induction entries) (simp_all add: constructed_delta np_add_NonFinite)

lemma delta_options_loop_zero:
  "\<forall>entry\<in>set entries. constructed (option entry) \<Longrightarrow>
     delta_options_loop add cdf 0 entries acc =
       Inr (if entries = [] then acc else NonFinite)"
  by (cases entries)
     (simp_all add: constructed_delta np_truediv_def np_add_NonFinite
        delta_options_loop_NonFinite)

lemma delta_forwards_loop_zero:
  "delta_forwards_loop add 0 entries acc =
     (if entries = [] then Inr acc else Inl ZeroDivisionError)"
  by (cases entries) (simp_all add: py_truediv_def)

lemma theta_loop_NonFinite:
  "\<forall>entry\<in>set entries. constructed (option entry) \<Longrightarrow>
     theta_loop add cdf 0 entries NonFinite = Inr NonFinite"
proof (induction entries)
  case Nil
  then show ?case by simp
next
  case (Cons entry entries)
  from Cons.prems obtain t where "fst (Option_theta cdf None None None (option entry)) = Inr t"
    using constructed_returns [of "option entry" cdf Theta] by auto
  with Cons show ?case
    by (simp add: np_add_NonFinite)
qed

lemma theta_loop_zero:
  assumes "\<forall>entry\<in>set entries. constructed (option entry)"
  shows "theta_loop add cdf 0 entries acc = Inr (if entries = [] then acc else NonFinite)"
proof (cases entries)
  case Nil
  then show ?thesis by simp
next
  case (Cons entry rest)
  with assms obtain t where "fst (Option_theta cdf None None None (option entry)) = Inr t"
    using constructed_returns [of "option entry" cdf Theta] by auto
  with Cons assms show ?thesis
    by (simp add: np_add_NonFinite np_truediv_def theta_loop_NonFinite)
qed

lemma gamma_loop_zero:
  assumes "\<forall>entry\<in>set entries. constructed (option entry)"
  shows "gamma_loop add 0 entries acc =
           (if entries = [] then Inr acc else Inl ZeroDivisionError)"
proof (cases entries)
  case Nil
  then show ?thesis by simp
next
  case (Cons entry rest)
  with assms obtain g where "fst (Option_gamma None None None (option entry)) = Inr g"
    using constructed_returns [of "option entry" undefined Gamma] by auto
  with Cons show ?thesis
    by (simp add: py_truediv_def)
qed

lemma vega_loop_zero:
  assumes "\<forall>entry\<in>set entries. constructed (option entry)"
  shows "vega_loop add 0 entries acc =
           (if entries = [] then Inr acc else Inl ZeroDivisionError)"
proof (cases entries)
  case Nil
  then show ?thesis by simp
next
  case (Cons entry rest)
  with assms obtain v where "fst (Option_vega None None None (option entry)) = Inr v"
    using constructed_returns [of "option entry" undefined Vega] by auto
  with Cons show ?thesis
    by (simp add: py_truediv_def)
qed

text \<open>
  Claim C4, as stated, does not hold: no aggregate checks the portfolio value, and
  \<open>total_premium_amount\<close> does not use it. With a value of zero and one entry holding the
  test instrument, \<open>total_premium_amount\<close> returns.
\<close>

theorem zero_portfolio_value_counterexample:
  "\<not> isl (Portfolio_total_premium_amount (+) logistic
             (add_option test_option 100 1 (Portfolio_init 0)))"
  by (simp add: Portfolio_total_premium_amount_def add_option_def Portfolio_init_def
      constructed_price constructed_test_option)

text \<open>
  Claim C4, amended. For a portfolio whose value is zero and whose option entries hold
  valid instruments: \<open>total_premium_amount\<close> returns the sum of price times quantity times
  contract size; \<open>gamma\<close> and \<open>vega\<close> fail with \<open>ZeroDivisionError\<close> when there is an option
  entry and return 0 when there is none; \<open>theta\<close> returns a value that is not finite when
  there is an option entry and 0 when there is none; \<open>delta\<close> fails with
  \<open>ZeroDivisionError\<close> when there is a forward entry, and otherwise returns a value that
  is not finite when there is an option entry and 0 when there is none. The sum of the
  premium is that of the real numbers, and under any addition the total of its terms in
  insertion order; the other outcomes are the same under any addition.
\<close>

theorem zero_portfolio_value_outcomes:
  assumes "portfolio_value self = 0"
    and "\<forall>entry\<in>set (options self). constructed (option entry)"
  shows "Portfolio_total_premium_amount (+) cdf self = Inr (spec_totalPremium cdf self)
       \<and> Portfolio_total_premium_amount add cdf self =
           Inr (running_total add (premium_terms cdf self))
       \<and> Portfolio_gamma add self =
           (if options self = [] then Inr 0 else Inl ZeroDivisionError)
       \<and> Portfolio_vega add self =
           (if options self = [] then Inr 0 else Inl ZeroDivisionError)
       \<and> Portfolio_theta add cdf self =
           Inr (if options self = [] then Finite 0 else NonFinite)
       \<and> Portfolio_delta add cdf self =
           (if forwards self \<noteq> [] then Inl ZeroDivisionError
            else Inr (if options self = [] then Finite 0 else NonFinite))"
  using assms
  by (simp add: Portfolio_total_premium_amount_def premium_loop_fold spec_totalPremium_def
      foldl_plus running_total_def premium_terms_def
      Portfolio_gamma_def gamma_loop_zero Portfolio_vega_def vega_loop_zero
      Portfolio_theta_def theta_loop_zero Portfolio_delta_def delta_options_loop_zero
      delta_forwards_loop_zero)

text \<open>A portfolio of value zero with the test instrument, and the same with a forward.\<close>

theorem zero_portfolio_value_outcomes_witness:
  "Portfolio_total_premium_amount (+) logistic (add_option test_option 100 1 (Portfolio_init 0))
     = Inr (instrument_price logistic test_option * 100 * 1)
   \<and> Portfolio_gamma (+) (add_option test_option 100 1 (Portfolio_init 0))
       = Inl ZeroDivisionError
   \<and> Portfolio_vega (+) (add_option test_option 100 1 (Portfolio_init 0))
       = Inl ZeroDivisionError
   \<and> Portfolio_theta (+) logistic (add_option test_option 100 1 (Portfolio_init 0))
       = Inr NonFinite
   \<and> Portfolio_delta (+) logistic (add_option test_option 100 1 (Portfolio_init 0))
       = Inr NonFinite
   \<and> Portfolio_delta (+) logistic
        (add_forward (Forward_init 100) 50 1 (add_option test_option 100 1 (Portfolio_init 0)))
       = Inl ZeroDivisionError"
  using
    zero_portfolio_value_outcomes
      [of "add_option test_option 100 1 (Portfolio_init 0)" logistic "(+)"]
    zero_portfolio_value_outcomes
      [of "add_forward (Forward_init 100) 50 1 (add_option test_option 100 1 (Portfolio_init 0))"
          logistic "(+)"]
  by (simp add: add_forward_def add_option_def Portfolio_init_def spec_totalPremium_def
      constructed_test_option)

text \<open>
  Claim C10. For a portfolio with no option entry and no forward entry, each of
  \<open>total_premium_amount\<close>, \<open>delta\<close>, \<open>gamma\<close>, \<open>vega\<close> and \<open>theta\<close> returns 0 and raises
  nothing, whatever the portfolio value, zero included: no loop body runs, so nothing is
  divided and nothing is added.
\<close>

theorem empty_portfolio_returns_zero:
  assumes "options self = []" and "forwards self = []"
  shows "Portfolio_total_premium_amount add cdf self = Inr 0
       \<and> Portfolio_delta add cdf self = Inr (Finite 0)
       \<and> Portfolio_gamma add self = Inr 0
       \<and> Portfolio_vega add self = Inr 0
       \<and> Portfolio_theta add cdf self = Inr (Finite 0)"
  using assms
  by (simp add: Portfolio_total_premium_amount_def Portfolio_delta_def Portfolio_gamma_def
      Portfolio_vega_def Portfolio_theta_def)

text \<open>The portfolio just created with value zero.\<close>

theorem empty_portfolio_returns_zero_witness:
  "Portfolio_total_premium_amount (+) logistic (Portfolio_init 0) = Inr 0
   \<and> Portfolio_delta (+) logistic (Portfolio_init 0) = Inr (Finite 0)
   \<and> Portfolio_gamma (+) (Portfolio_init 0) = Inr 0
   \<and> Portfolio_vega (+) (Portfolio_init 0) = Inr 0
   \<and> Portfolio_theta (+) logistic (Portfolio_init 0) = Inr (Finite 0)"
  using empty_portfolio_returns_zero [of "Portfolio_init 0" "(+)" logistic]
  by (simp add: Portfolio_init_def)

section \<open>Properties of the volatility estimator\<close>

text \<open>
  The returns keep the timestamps of the prices they come from, in ascending order, and
  there are no more returns than prices.
\<close>

lemma map_fst_pct_change_from: "map fst (pct_change_from previous series) = map fst series"
  by (induction previous series rule: pct_change_from.induct) simp_all

lemma map_fst_pct_change: "map fst (pct_change series) = map fst series"
  by (cases series rule: pct_change.cases) (simp_all add: map_fst_pct_change_from)

lemma length_pct_change: "length (pct_change series) = length series"
  using map_fst_pct_change [of series] by (metis length_map)

lemma length_daily_returns:
  "length (daily_returns (Volatility_init prices)) \<le> length prices"
proof -
  have "length (daily_returns (Volatility_init prices))
          \<le> length (pct_change (sort_index prices))"
    by (simp add: daily_returns_def Volatility_init_def dropna_def)
  then show ?thesis
    by (simp add: length_pct_change sort_index_def)
qed

lemma sorted_daily_returns: "sorted (map fst (daily_returns (Volatility_init prices)))"
proof -
  have "sorted (map fst (pct_change (sort_index prices)))"
    by (simp add: map_fst_pct_change sort_index_def)
  then show ?thesis
    by (simp add: daily_returns_def Volatility_init_def dropna_def sorted_filter)
qed

text \<open>
  A window with fewer cells than its width gives \<open>NaN\<close>, so a series shorter than the
  width has \<open>NaN\<close> in every row of its rolling deviation. The rolling deviation and the
  product with a number keep the timestamps.
\<close>

lemma window_std_short: "length cells < w \<Longrightarrow> window_std w cells = NaN"
proof -
  assume short: "length cells < w"
  have "length (List.map_filter observation cells) \<le> length cells"
    by (simp add: map_filter_def o_def)
  with short show ?thesis
    by (simp add: window_std_def Let_def)
qed

lemma rolling_std_short:
  assumes "length series < w"
  shows "\<forall>row\<in>set (rolling_std w series). snd row = NaN"
proof -
  have "window_std w (map snd (drop (i + 1 - w) (take (i + 1) series))) = NaN" for i
    using assms by (intro window_std_short) simp
  then show ?thesis
    by (simp add: rolling_std_def)
qed

lemma map_fst_rolling_std: "map fst (rolling_std w series) = map fst series"
proof -
  have "map fst (rolling_std w series) = map (\<lambda>i. fst (series ! i)) [0 ..< length series]"
    by (simp add: rolling_std_def o_def)
  also have "\<dots> = map fst (map ((!) series) [0 ..< length series])"
    by (simp add: o_def)
  finally show ?thesis
    by (simp add: map_nth)
qed

lemma map_fst_mul_scalar: "map fst (mul_scalar series c) = map fst series"
  by (simp add: mul_scalar_def o_def)

lemma mul_scalar_NaN:
  "\<forall>row\<in>set series. snd row = NaN \<Longrightarrow> \<forall>row\<in>set (mul_scalar series c). snd row = NaN"
  by (auto simp: mul_scalar_def)

text \<open>
  Resampling a series of \<open>NaN\<close> gives \<open>NaN\<close> for every month; resampling a series in
  ascending order gives one row for each month from its first to its last, and no row
  only when the series has none.
\<close>

lemma last_valid_NaN: "\<forall>c\<in>set cells. c = NaN \<Longrightarrow> last_valid cells = NaN"
proof -
  assume "\<forall>c\<in>set cells. c = NaN"
  then have "filter (\<lambda>c. c \<noteq> NaN) cells = []"
    by (simp add: filter_empty_conv)
  then show ?thesis
    by (simp add: last_valid_def)
qed

lemma resample_M_last_NaN:
  assumes "\<forall>row\<in>set series. snd row = NaN"
  shows "\<forall>row\<in>set (resample_M_last series). snd row = NaN"
proof -
  have "last_valid (map snd (filter (\<lambda>row. fst (fst row) = m) series)) = NaN" for m
    using assms by (intro last_valid_NaN) auto
  then show ?thesis
    by (auto simp: resample_M_last_def)
qed

lemma sorted_months:
  assumes "sorted (map fst series)" and "series \<noteq> []"
  shows "fst (fst (hd series)) \<le> fst (fst (last series))"
proof -
  have "hd (map fst series) \<le> last (map fst series)"
    using assms
    by (metis Nil_is_map_conv eq_iff hd_Cons_tl last_in_set list.sel(1) set_ConsD sorted_simps(2)
        hd_in_set)
  then have "fst (hd series) \<le> fst (last series)"
    using assms(2) by (simp add: hd_map last_map)
  then show ?thesis
    by (auto simp: less_eq_prod_def)
qed

lemma resample_M_last_empty_iff:
  assumes "sorted (map fst series)"
  shows "resample_M_last series = [] \<longleftrightarrow> series = []"
  using sorted_months [OF assms] by (auto simp: resample_M_last_def)

lemma length_resample_M_last:
  assumes "sorted (map fst series)" "series \<noteq> []"
  shows "map fst (resample_M_last series)
           = [fst (fst (hd series)) ..< Suc (fst (fst (last series)))]"
  using assms by (simp add: resample_M_last_def o_def)


text \<open>Fewer than two prices give no return. The rolling volatility has the timestamps of the
  returns.\<close>

lemma daily_returns_few: "length prices < 2 \<Longrightarrow> daily_returns (Volatility_init prices) = []"
proof -
  assume "length prices < 2"
  then have "length (sort_index prices) < 2"
    by (simp add: sort_index_def)
  then have "dropna (pct_change (sort_index prices)) = []"
    by (cases "sort_index prices" rule: pct_change.cases) (simp_all add: dropna_def)
  then show ?thesis
    by (simp add: daily_returns_def Volatility_init_def)
qed

lemma map_fst_rolling_volatility:
  "map fst (rolling_volatility self) = map fst (daily_returns self)"
  by (simp add: rolling_volatility_def map_fst_mul_scalar map_fst_rolling_std)

lemma rolling_volatility_empty_iff: "rolling_volatility self = [] \<longleftrightarrow> daily_returns self = []"
  using map_fst_rolling_volatility [of self] by (metis map_is_Nil_conv)

lemma months_rolling_volatility:
  "daily_returns self \<noteq> [] \<Longrightarrow>
     fst (hd (rolling_volatility self)) = fst (hd (daily_returns self))
     \<and> fst (last (rolling_volatility self)) = fst (last (daily_returns self))"
  using map_fst_rolling_volatility [of self] rolling_volatility_empty_iff [of self]
  by (metis hd_map last_map)

text \<open>
  Claim C9, as stated, does not hold: the monthly output is not empty. Two prices in one
  month give one return, whose rolling volatility is \<open>NaN\<close>; the monthly output has one
  row, for that month, with the value \<open>NaN\<close>.
\<close>

theorem short_series_counterexample:
  "length [((0, 2), 100), ((0, 3), 101 :: real)] < (30 :: nat)
   \<and> compute_monthly_30d_volatility (Volatility_init [((0, 2), 100), ((0, 3), 101)])
       = [(0, NaN)]"
  by (simp add: compute_monthly_30d_volatility_def rolling_volatility_def daily_returns_def
      Volatility_init_def sort_index_def less_eq_prod_def dropna_def change_def
      rolling_std_def window_std_def map_filter_def mul_scalar_def resample_M_last_def
      last_valid_def)

text \<open>
  Claim C9, amended. For a series of fewer than 30 prices, every row of the rolling
  volatility holds \<open>NaN\<close>, and so does every row of the monthly output. The monthly output
  has one row for each calendar month from the month of the first return to the month of
  the last return; it is empty exactly when there is no return, as is the case for fewer
  than two prices.
\<close>

theorem short_series_insufficient:
  assumes "length prices < 30"
  shows "(\<forall>row\<in>set (rolling_volatility (Volatility_init prices)). snd row = NaN)
       \<and> (\<forall>row\<in>set (compute_monthly_30d_volatility (Volatility_init prices)). snd row = NaN)
       \<and> (daily_returns (Volatility_init prices) \<noteq> [] \<longrightarrow>
            map fst (compute_monthly_30d_volatility (Volatility_init prices)) =
              [fst (fst (hd (daily_returns (Volatility_init prices))))
                 ..< Suc (fst (fst (last (daily_returns (Volatility_init prices)))))])
       \<and> (compute_monthly_30d_volatility (Volatility_init prices) = [] \<longleftrightarrow>
            daily_returns (Volatility_init prices) = [])
       \<and> (length prices < 2 \<longrightarrow> compute_monthly_30d_volatility (Volatility_init prices) = [])"
proof -
  define self where "self = Volatility_init prices"
  have short: "length (daily_returns self) < 30"
    using assms length_daily_returns [of prices] by (simp add: self_def)
  have rolling: "\<forall>row\<in>set (rolling_volatility self). snd row = NaN"
    unfolding rolling_volatility_def
    by (intro mul_scalar_NaN rolling_std_short short)
  then have monthly: "\<forall>row\<in>set (compute_monthly_30d_volatility self). snd row = NaN"
    unfolding compute_monthly_30d_volatility_def by (rule resample_M_last_NaN)
  have sorted: "sorted (map fst (rolling_volatility self))"
    using sorted_daily_returns [of prices]
    by (simp add: map_fst_rolling_volatility self_def)
  have empty: "compute_monthly_30d_volatility self = [] \<longleftrightarrow> daily_returns self = []"
    unfolding compute_monthly_30d_volatility_def
    using resample_M_last_empty_iff [OF sorted] rolling_volatility_empty_iff [of self]
    by simp
  have months: "map fst (compute_monthly_30d_volatility self) =
              [fst (fst (hd (daily_returns self))) ..< Suc (fst (fst (last (daily_returns self))))]"
    if "daily_returns self \<noteq> []"
    unfolding compute_monthly_30d_volatility_def
    using length_resample_M_last [OF sorted] that months_rolling_volatility [OF that]
      rolling_volatility_empty_iff [of self]
    by simp
  have few: "compute_monthly_30d_volatility self = []" if "length prices < 2"
    using that empty daily_returns_few [of prices] by (simp add: self_def)
  from rolling monthly months empty few show ?thesis
    unfolding self_def by blast
qed

text \<open>The returns of two prices in one month.\<close>

lemma daily_returns_two_prices:
  "daily_returns (Volatility_init [((0, 2), 100), ((0, 3), 101)]) = [((0, 3), Num (101 / 100 - 1))]"
  by (simp add: daily_returns_def Volatility_init_def sort_index_def less_eq_prod_def
      dropna_def change_def)

text \<open>Two prices in one month, and a single price.\<close>

theorem short_series_insufficient_witness:
  "map snd (compute_monthly_30d_volatility (Volatility_init [((0, 2), 100), ((0, 3), 101)]))
     = [NaN]
   \<and> map fst (compute_monthly_30d_volatility (Volatility_init [((0, 2), 100), ((0, 3), 101)]))
     = [0]
   \<and> compute_monthly_30d_volatility (Volatility_init [((0, 2), 100)]) = []"
proof -
  define monthly where
    "monthly = compute_monthly_30d_volatility (Volatility_init [((0, 2), 100), ((0, 3), 101)])"
  have two: "length [((0, 2), 100), ((0 :: nat, 3 :: nat), 101 :: real)] < 30"
    by simp
  have one: "length [((0 :: nat, 2 :: nat), 100 :: real)] < 30"
    by simp
  note for_two = short_series_insufficient [OF two]
  note for_one = short_series_insufficient [OF one]
  from for_two have all: "\<forall>row\<in>set monthly. snd row = NaN"
    unfolding monthly_def by blast
  from for_two have months: "map fst monthly = [0]"
    unfolding monthly_def by (simp add: daily_returns_two_prices)
  then obtain c where "monthly = [(0, c)]"
    by (cases monthly) auto
  with all have "monthly = [(0, NaN)]"
    by simp
  moreover from for_one
  have "compute_monthly_30d_volatility (Volatility_init [((0, 2), 100)]) = []"
    by simp
  ultimately show ?thesis
    unfolding monthly_def by simp
qed

end
